theory Spec2Isabelle
  imports Main
begin

section \<open>JavaScript values and the operators the handlers use\<close>

text \<open>
  The repository holds four versions of one booking backend:
  \<^item> \<open>server.js\<close>: the production server on a hosted store (suffix \<open>_prod\<close> below);
  \<^item> the first file of \<open>part_000\<close>: the server on a local JSON file store (suffix \<open>_file\<close>);
  \<^item> the second file of \<open>part_000\<close>: the hosted-store server with a checked bulk update
    (suffix \<open>_cloud\<close>);
  \<^item> \<open>part_001\<close>: the hosted-store server with field-name aliases (suffix \<open>_alias\<close>).

  Numbers are mathematical integers or NaN: \<open>Fin n\<close> is the number \<open>n\<close>. The arithmetic
  of the handlers is exact on the safe integers, those of magnitude at most \<open>2^53 - 1\<close>
  (\<open>safe_num\<close> below); beyond them JavaScript rounds, and a long digit string parses to
  an infinity, so the statements that depend on a parsed number carry that bound.
  Fractions and negative zero are outside the model. Strings are lists of bytes, the UTF-8
  encoding of the JavaScript string.
\<close>

datatype jsnum = NaN | Fin int

datatype jsval =
    JUndef
  | JNull
  | JBool bool
  | JNum jsnum
  | JStr string
  | JArr "jsval list"
  | JObj "(string \<times> jsval) list"
  | JFun string

text \<open>\<open>o.k\<close> and \<open>o['k']\<close> on a parsed request body: a missing key reads as undefined.\<close>

definition field :: "(string \<times> jsval) list \<Rightarrow> string \<Rightarrow> jsval" where
  "field b k = (case map_of b k of None \<Rightarrow> JUndef | Some v \<Rightarrow> v)"

text \<open>ToBoolean.\<close>

fun truthy_num :: "jsnum \<Rightarrow> bool" where
  "truthy_num NaN = False"
| "truthy_num (Fin n) = (n \<noteq> 0)"

fun truthy :: "jsval \<Rightarrow> bool" where
  "truthy JUndef = False"
| "truthy JNull = False"
| "truthy (JBool b) = b"
| "truthy (JNum n) = truthy_num n"
| "truthy (JStr s) = (s \<noteq> [])"
| "truthy (JArr _) = True"
| "truthy (JObj _) = True"
| "truthy (JFun _) = True"

text \<open>\<open>a || b\<close>, on values and on numbers.\<close>

definition js_or :: "jsval \<Rightarrow> jsval \<Rightarrow> jsval" where
  "js_or a b = (if truthy a then a else b)"

definition or_num :: "jsnum \<Rightarrow> jsnum \<Rightarrow> jsnum" where
  "or_num a b = (if truthy_num a then a else b)"

text \<open>\<open>Number.MAX_SAFE_INTEGER\<close> and the numbers on which the model is exact.\<close>

definition max_safe :: int where
  "max_safe = 2 ^ 53 - 1"

fun safe_num :: "jsnum \<Rightarrow> bool" where
  "safe_num NaN = True"
| "safe_num (Fin n) = (- max_safe \<le> n \<and> n \<le> max_safe)"

text \<open>\<open>a < b\<close> and \<open>a - b\<close> on numbers: a comparison with NaN is false, NaN is absorbing.\<close>

fun js_lt :: "jsnum \<Rightarrow> jsnum \<Rightarrow> bool" where
  "js_lt (Fin a) (Fin b) = (a < b)"
| "js_lt _ _ = False"

fun js_sub :: "jsnum \<Rightarrow> jsnum \<Rightarrow> jsnum" where
  "js_sub (Fin a) (Fin b) = Fin (a - b)"
| "js_sub _ _ = NaN"


subsection \<open>Number to string\<close>

definition digit_char :: "nat \<Rightarrow> char" where
  "digit_char d = char_of (48 + d)"

fun show_nat :: "nat \<Rightarrow> string" where
  "show_nat n = (if n < 10 then [digit_char n] else show_nat (n div 10) @ [digit_char (n mod 10)])"

declare show_nat.simps [simp del]

definition show_int :: "int \<Rightarrow> string" where
  "show_int i = (if i < 0 then CHR ''-'' # show_nat (nat (- i)) else show_nat (nat i))"

fun show_num :: "jsnum \<Rightarrow> string" where
  "show_num NaN = ''NaN''"
| "show_num (Fin n) = show_int n"

text \<open>\<open>Array.prototype.join\<close> with the separator \<open>,\<close> over already rendered elements.\<close>

fun join_comma :: "string list \<Rightarrow> string" where
  "join_comma [] = []"
| "join_comma [s] = s"
| "join_comma (s # t # ss) = s @ '','' @ join_comma (t # ss)"

text \<open>
  ToString, as a template literal or \<open>parseInt\<close> applies it. A function value \<open>JFun name\<close>
  stands for a built-in method and renders as its source text. The conversion of an
  object goes through its \<open>toString\<close> member: the inherited one gives
  \<open>[object Object]\<close>, but a member of its own, which in a parsed JSON value is never
  callable, makes the conversion throw a TypeError (\<open>to_string_throws\<close>); an array throws
  when one of its elements does. \<open>js_to_string\<close> is the result when nothing throws.
\<close>

fun js_to_string :: "jsval \<Rightarrow> string" where
  "js_to_string JUndef = ''undefined''"
| "js_to_string JNull = ''null''"
| "js_to_string (JBool b) = (if b then ''true'' else ''false'')"
| "js_to_string (JNum n) = show_num n"
| "js_to_string (JStr s) = s"
| "js_to_string (JArr vs) =
     join_comma (map (\<lambda>v. if v = JUndef \<or> v = JNull then [] else js_to_string v) vs)"
| "js_to_string (JObj _) = ''[object Object]''"
| "js_to_string (JFun name) = ''function '' @ name @ ''() { [native code] }''"

fun to_string_throws :: "jsval \<Rightarrow> bool" where
  "to_string_throws (JObj kvs) = (''toString'' \<in> fst ` set kvs)"
| "to_string_throws (JArr vs) = (\<exists>v\<in>set vs. to_string_throws v)"
| "to_string_throws _ = False"

text \<open>The message of that TypeError, as Node words it.\<close>

definition type_error_message :: string where
  "type_error_message = ''Cannot convert object to primitive value''"

subsection \<open>parseInt and trim\<close>

text \<open>
  The white space that \<open>parseInt\<close> and \<open>trim\<close> strip, as the bytes of one code point:
  TAB, LF, VT, FF, CR, the space, U+00A0, U+1680, U+2000 to U+200A, U+2028, U+2029,
  U+202F, U+205F, U+3000 and U+FEFF.
\<close>

definition is_ws_bytes :: "nat list \<Rightarrow> bool" where
  "is_ws_bytes bs =
     (case bs of
        [a] \<Rightarrow> (9 \<le> a \<and> a \<le> 13) \<or> a = 32
      | [a, b] \<Rightarrow> a = 194 \<and> b = 160
      | [a, b, c] \<Rightarrow>
          (a = 225 \<and> b = 154 \<and> c = 128) \<or>
          (a = 226 \<and> b = 128 \<and> ((128 \<le> c \<and> c \<le> 138) \<or> c = 168 \<or> c = 169 \<or> c = 175)) \<or>
          (a = 226 \<and> b = 129 \<and> c = 159) \<or>
          (a = 227 \<and> b = 128 \<and> c = 128) \<or>
          (a = 239 \<and> b = 187 \<and> c = 191)
      | _ \<Rightarrow> False)"

text \<open>The number of bytes of the white-space code point at the head, at the end; 0 if none.\<close>

definition ws_len :: "string \<Rightarrow> nat" where
  "ws_len s =
     (let bs = (map of_char s :: nat list) in
      if is_ws_bytes (take 1 bs) then 1
      else if is_ws_bytes (take 2 bs) then 2
      else if is_ws_bytes (take 3 bs) then 3
      else 0)"

definition ws_len_end :: "string \<Rightarrow> nat" where
  "ws_len_end s =
     (let bs = (map of_char s :: nat list); n = length bs in
      if is_ws_bytes (drop (n - 1) bs) then 1
      else if is_ws_bytes (drop (n - 2) bs) then 2
      else if is_ws_bytes (drop (n - 3) bs) then 3
      else 0)"

function skip_ws :: "string \<Rightarrow> string" where
  "skip_ws s = (if ws_len s = 0 then s else skip_ws (drop (ws_len s) s))"
  by pat_completeness auto
termination
proof (relation "measure length")
  show "wf (measure length)" by simp
next
  fix s :: string
  assume "ws_len s \<noteq> 0"
  moreover have "ws_len [] = 0" by (simp add: ws_len_def is_ws_bytes_def)
  ultimately have "s \<noteq> []" by auto
  with \<open>ws_len s \<noteq> 0\<close> show "(drop (ws_len s) s, s) \<in> measure length" by simp
qed

function skip_ws_end :: "string \<Rightarrow> string" where
  "skip_ws_end s =
     (if ws_len_end s = 0 then s else skip_ws_end (take (length s - ws_len_end s) s))"
  by pat_completeness auto
termination
proof (relation "measure length")
  show "wf (measure length)" by simp
next
  fix s :: string
  assume "ws_len_end s \<noteq> 0"
  moreover have "ws_len_end [] = 0" by (simp add: ws_len_end_def is_ws_bytes_def)
  ultimately have "s \<noteq> []" by auto
  with \<open>ws_len_end s \<noteq> 0\<close>
  show "(take (length s - ws_len_end s) s, s) \<in> measure length" by simp
qed

declare skip_ws.simps [simp del] skip_ws_end.simps [simp del]

definition digit_val :: "char \<Rightarrow> nat option" where
  "digit_val c =
     (let n = (of_char c :: nat) in
      if 48 \<le> n \<and> n \<le> 57 then Some (n - 48)
      else if 97 \<le> n \<and> n \<le> 102 then Some (n - 87)
      else if 65 \<le> n \<and> n \<le> 70 then Some (n - 55)
      else None)"

definition is_digit :: "nat \<Rightarrow> char \<Rightarrow> bool" where
  "is_digit radix c = (case digit_val c of None \<Rightarrow> False | Some d \<Rightarrow> d < radix)"

definition digits_value :: "nat \<Rightarrow> string \<Rightarrow> nat" where
  "digits_value radix z = foldl (\<lambda>a c. a * radix + the (digit_val c)) 0 z"

text \<open>
  \<open>parseInt(s)\<close> with no radix: leading white space is skipped, one sign is read, a
  \<open>0x\<close> or \<open>0X\<close> prefix selects radix 16, the longest run of digits is the value, and
  no digit at all gives NaN.
\<close>

definition parse_int :: "string \<Rightarrow> jsnum" where
  "parse_int s =
     (let s1 = skip_ws s;
          neg = (case s1 of c # _ \<Rightarrow> c = CHR ''-'' | [] \<Rightarrow> False);
          s2 = (case s1 of c # r \<Rightarrow> if c = CHR ''-'' \<or> c = CHR ''+'' then r else s1 | [] \<Rightarrow> s1);
          hex = (take 2 s2 = ''0x'' \<or> take 2 s2 = ''0X'');
          radix = (if hex then 16 else 10);
          s3 = (if hex then drop 2 s2 else s2);
          z = takeWhile (is_digit radix) s3
      in if z = [] then NaN
         else Fin ((if neg then - 1 else 1) * int (digits_value radix z)))"

definition js_parseInt :: "jsval \<Rightarrow> jsnum" where
  "js_parseInt v = parse_int (js_to_string v)"

definition trim :: "string \<Rightarrow> string" where
  "trim s = skip_ws_end (skip_ws s)"

text \<open>\<open>v.k\<close> on a value: a property of an object, undefined on anything else.\<close>

fun js_get :: "jsval \<Rightarrow> string \<Rightarrow> jsval" where
  "js_get (JObj kvs) k = field kvs k"
| "js_get _ k = JUndef"


section \<open>The hosted store\<close>

text \<open>
  The hosted variants keep two tables: \<open>rooms{room_type, available}\<close> and \<open>bookings\<close>.
  \<open>room_type\<close> identifies a row, so the table is a map from the room type to the
  \<open>available\<close> cell. The cell is an integer column: it holds an integer or SQL NULL
  (\<open>None\<close>), which the client reads as \<open>null\<close>.
\<close>

type_synonym cell = "int option"

record store =
  rooms :: "string \<rightharpoonup> cell"
  bookings :: "jsval list"

text \<open>
  The store is an external collaborator and any call to it may fail. The client library
  does not throw: every call returns an error object or none. \<open>faults\<close> fixes, for the
  four calls of one booking request, the message of the error the call returns, and the
  message the library reports when \<open>.single()\<close> finds no row.
\<close>

record faults =
  select_err :: "string option"
  update_err :: "string option"
  insert_err :: "string option"
  rollback_err :: "string option"
  no_rows_msg :: string

record response =
  status :: nat
  json :: jsval

text \<open>\<open>JSON.stringify\<close> sends NaN as \<open>null\<close>; \<open>null\<close> read back is 0 in arithmetic.\<close>

fun to_cell :: "jsnum \<Rightarrow> cell" where
  "to_cell NaN = None"
| "to_cell (Fin n) = Some n"

fun cell_num :: "cell \<Rightarrow> jsnum" where
  "cell_num None = Fin 0"
| "cell_num (Some n) = Fin n"

fun show_cell :: "cell \<Rightarrow> string" where
  "show_cell None = ''null''"
| "show_cell (Some n) = show_int n"

fun cell_val :: "cell \<Rightarrow> jsval" where
  "cell_val None = JNull"
| "cell_val (Some n) = JNum (Fin n)"

text \<open>\<open>from('rooms').select('available').eq('room_type', key).single()\<close>\<close>

definition select_single :: "faults \<Rightarrow> store \<Rightarrow> string \<Rightarrow> string + cell" where
  "select_single f st key =
     (case select_err f of
        Some e \<Rightarrow> Inl e
      | None \<Rightarrow> (case rooms st key of None \<Rightarrow> Inl (no_rows_msg f) | Some c \<Rightarrow> Inr c))"

text \<open>
  \<open>from('rooms').update({available: v}).eq('room_type', key)\<close> when the call succeeds:
  a key that matches no row changes nothing and is no error.
\<close>

definition update_available :: "store \<Rightarrow> string \<Rightarrow> cell \<Rightarrow> store" where
  "update_available st key v =
     (case rooms st key of
        None \<Rightarrow> st
      | Some _ \<Rightarrow> st\<lparr>rooms := (rooms st)(key \<mapsto> v)\<rparr>)"

definition error_json :: "string \<Rightarrow> jsval" where
  "error_json msg = JObj [(''error'', JStr msg)]"

definition error_details_json :: "string \<Rightarrow> string \<Rightarrow> jsval" where
  "error_details_json msg details = JObj [(''error'', JStr msg), (''details'', JStr details)]"

section \<open>server.js: POST /api/bookings\<close>

text \<open>
  The four booking handlers are modelled on requests none of whose fields throws when it
  is converted to a string (\<open>no_throwing_field\<close>); \<open>js_to_string\<close> is the conversion of
  such a field.
\<close>

definition qty_prod :: "(string \<times> jsval) list \<Rightarrow> jsnum" where
  "qty_prod b = or_num (js_parseInt (field b ''quantity'')) (Fin 1)"

definition record_prod :: "(string \<times> jsval) list \<Rightarrow> jsnum \<Rightarrow> jsval" where
  "record_prod b qty = JObj
     [(''full_name'', js_or (field b ''guest_name'') (field b ''full_name'')),
      (''phone'', js_or (field b ''contact_number'') (field b ''phone'')),
      (''room_category'', field b ''room_type''),
      (''number_of_rooms'', JNum qty),
      (''check_in'', field b ''check_in''),
      (''check_out'', field b ''check_out''),
      (''payment_amount'', JNum (or_num (js_parseInt (field b ''total_amount'')) (Fin 0))),
      (''payment_channel'', field b ''payment_channel''),
      (''transaction_id'', js_or (field b ''reference_number'') (field b ''transaction_id'')),
      (''coming_with_id'', JBool (field b ''valid_id'' = JStr ''Yes'')),
      (''additional_requests'', field b ''additional_requests'')]"

text \<open>The \<open>catch\<close> block of the handler.\<close>

definition caught_prod :: "string \<Rightarrow> response" where
  "caught_prod e = \<lparr>status = 500, json = error_details_json ''Internal server error'' e\<rparr>"

definition submit_prod :: "faults \<Rightarrow> store \<Rightarrow> (string \<times> jsval) list \<Rightarrow> response \<times> store" where
  "submit_prod f st b =
     (let key = js_to_string (field b ''room_type'') in
      case select_single f st key of
        Inl fetchErr \<Rightarrow> (\<lparr>status = 404, json = error_json ''Room type not found''\<rparr>, st)
      | Inr available \<Rightarrow>
          let qty = qty_prod b in
          if js_lt (cell_num available) qty
          then (\<lparr>status = 400, json = error_json ''Room category sold out''\<rparr>, st)
          else (case update_err f of
                  Some updErr \<Rightarrow> (caught_prod updErr, st)
                | None \<Rightarrow>
                    let st1 = update_available st key (to_cell (js_sub (cell_num available) qty)) in
                    (case insert_err f of
                       Some insErr \<Rightarrow>
                         (caught_prod insErr,
                          case rollback_err f of
                            None \<Rightarrow> update_available st1 key available
                          | Some _ \<Rightarrow> st1)
                     | None \<Rightarrow>
                         (\<lparr>status = 200,
                           json = JObj [(''success'', JBool True),
                                        (''message'', JStr ''Booking confirmed'')]\<rparr>,
                          st1\<lparr>bookings := bookings st1 @ [record_prod b qty]\<rparr>))))"

section \<open>part_000, hosted variant: POST /api/bookings\<close>

definition qty_cloud :: "(string \<times> jsval) list \<Rightarrow> jsnum" where
  "qty_cloud b = or_num (js_parseInt (field b ''quantity'')) (Fin 1)"

definition record_cloud :: "(string \<times> jsval) list \<Rightarrow> jsnum \<Rightarrow> jsval" where
  "record_cloud b quantity = JObj
     [(''room_category'', field b ''room_type''),
      (''number_of_rooms'', JNum quantity),
      (''check_in'', field b ''check_in''),
      (''check_out'', field b ''check_out''),
      (''full_name'', js_or (field b ''guest_name'') (field b ''full_name'')),
      (''phone'', js_or (field b ''contact_number'') (field b ''phone'')),
      (''coming_with_id'',
         JBool (field b ''valid_id'' = JStr ''Yes'' \<or> field b ''coming_with_id'' = JBool True)),
      (''payment_amount'',
         JNum (or_num (js_parseInt (js_or (field b ''total_amount'') (field b ''payment_amount'')))
                 (Fin 0))),
      (''payment_channel'', field b ''payment_channel''),
      (''transaction_id'', js_or (field b ''reference_number'') (field b ''transaction_id'')),
      (''additional_requests'', field b ''additional_requests'')]"

definition caught_cloud :: "string \<Rightarrow> response" where
  "caught_cloud e = \<lparr>status = 500, json = error_details_json ''Internal Server Error'' e\<rparr>"

definition submit_cloud :: "faults \<Rightarrow> store \<Rightarrow> (string \<times> jsval) list \<Rightarrow> response \<times> store" where
  "submit_cloud f st b =
     (let key = js_to_string (field b ''room_type'') in
      case select_single f st key of
        Inl fetchErr \<Rightarrow> (\<lparr>status = 400, json = error_json ''Room category not found''\<rparr>, st)
      | Inr available \<Rightarrow>
          let quantity = qty_cloud b in
          if js_lt (cell_num available) quantity
          then (\<lparr>status = 400, json = error_json ''Room category sold out''\<rparr>, st)
          else (case update_err f of
                  Some updErr \<Rightarrow> (caught_cloud updErr, st)
                | None \<Rightarrow>
                    let st1 = update_available st key
                                (to_cell (js_sub (cell_num available) quantity)) in
                    (case insert_err f of
                       Some saveErr \<Rightarrow>
                         (caught_cloud saveErr,
                          case rollback_err f of
                            None \<Rightarrow> update_available st1 key available
                          | Some _ \<Rightarrow> st1)
                     | None \<Rightarrow>
                         (\<lparr>status = 200,
                           json = JObj [(''success'', JBool True),
                                        (''message'', JStr ''Booking confirmed and saved.'')]\<rparr>,
                          st1\<lparr>bookings := bookings st1 @ [record_cloud b quantity]\<rparr>))))"

section \<open>part_001: POST /api/bookings\<close>

definition room_category_alias :: "(string \<times> jsval) list \<Rightarrow> jsval" where
  "room_category_alias body =
     js_or (js_or (js_or (field body ''room_category'') (field body ''Room Type''))
                  (field body ''room_type''))
           (JStr [])"

definition number_of_rooms_alias :: "(string \<times> jsval) list \<Rightarrow> jsnum" where
  "number_of_rooms_alias body =
     js_parseInt (js_or (js_or (js_or (field body ''number_of_rooms'')
                                      (field body ''Number of Rooms''))
                               (field body ''quantity''))
                        (JNum (Fin 1)))"

definition coming_with_id_alias :: "(string \<times> jsval) list \<Rightarrow> bool" where
  "coming_with_id_alias body =
     (field body ''coming_with_id'' = JBool True \<or> field body ''coming_with_id'' = JStr ''true'' \<or>
      field body ''Valid Id'' = JStr ''Yes'' \<or> field body ''valid_id'' = JStr ''Yes'')"

definition booking_alias :: "(string \<times> jsval) list \<Rightarrow> jsval" where
  "booking_alias body = JObj
     [(''room_category'', room_category_alias body),
      (''number_of_rooms'', JNum (number_of_rooms_alias body)),
      (''check_in'', js_or (js_or (field body ''check_in'') (field body ''Check In'')) (JStr [])),
      (''check_out'', js_or (js_or (field body ''check_out'') (field body ''Check Out'')) (JStr [])),
      (''full_name'',
         js_or (js_or (js_or (field body ''full_name'') (field body ''Guest Name''))
                      (field body ''guest_name''))
               (JStr [])),
      (''phone'',
         js_or (js_or (js_or (field body ''phone'') (field body ''Guest Phone''))
                      (field body ''contact_number''))
               (JStr [])),
      (''coming_with_id'', JBool (coming_with_id_alias body)),
      (''payment_amount'',
         JNum (js_parseInt (js_or (js_or (js_or (field body ''payment_amount'')
                                                (field body ''Payment Amount''))
                                         (field body ''total_amount''))
                                  (JNum (Fin 0))))),
      (''payment_channel'',
         js_or (js_or (field body ''payment_channel'') (field body ''Payment Method'')) (JStr [])),
      (''transaction_id'',
         js_or (js_or (js_or (field body ''transaction_id'') (field body ''Reference Number''))
                      (field body ''reference_number''))
               (JStr [])),
      (''additional_requests'',
         js_or (js_or (field body ''additional_requests'') (field body ''Additional Requests''))
               (JStr []))]"

definition caught_alias :: "string \<Rightarrow> response" where
  "caught_alias e = \<lparr>status = 500, json = error_details_json ''Failed to process booking'' e\<rparr>"

definition sold_out_alias :: "cell \<Rightarrow> string \<Rightarrow> string" where
  "sold_out_alias currentStock roomCategory =
     ''Sorry, not enough rooms available. Only '' @ show_cell currentStock @ '' '' @
     roomCategory @ ''(s) remaining.''"

text \<open>
  The insert ends in \<open>.select().single()\<close> and returns the stored row; the columns the
  store adds to it (\<open>id\<close>, \<open>created_at\<close>) are not modelled, \<open>insertedBooking\<close> is the
  record as sent.
\<close>

definition submit_alias :: "faults \<Rightarrow> store \<Rightarrow> (string \<times> jsval) list \<Rightarrow> response \<times> store" where
  "submit_alias f st body =
     (let booking = booking_alias body;
          roomCategory = js_to_string (room_category_alias body);
          requestedQty = number_of_rooms_alias body in
      case select_single f st roomCategory of
        Inl roomError \<Rightarrow> (caught_alias roomError, st)
      | Inr currentStock \<Rightarrow>
          if js_lt (cell_num currentStock) requestedQty
          then (\<lparr>status = 400, json = error_json (sold_out_alias currentStock roomCategory)\<rparr>, st)
          else
            let newStock = js_sub (cell_num currentStock) requestedQty in
            (case update_err f of
               Some updateError \<Rightarrow> (caught_alias updateError, st)
             | None \<Rightarrow>
                 let st1 = update_available st roomCategory (to_cell newStock) in
                 (case insert_err f of
                    Some insertError \<Rightarrow>
                      (caught_alias insertError,
                       case rollback_err f of
                         None \<Rightarrow> update_available st1 roomCategory currentStock
                       | Some _ \<Rightarrow> st1)
                  | None \<Rightarrow>
                      (\<lparr>status = 200,
                        json = JObj [(''success'', JBool True),
                                     (''message'',
                                        JStr ''Booking confirmed! Your reservation has been saved.''),
                                     (''booking'', booking),
                                     (''remainingRooms'', JNum newStock)]\<rparr>,
                       st1\<lparr>bookings := bookings st1 @ [booking]\<rparr>))))"

section \<open>part_000, file-store variant: POST /api/bookings\<close>

text \<open>
  The file-store variant answers from two in-memory objects and writes them to disk in
  the background; a failed write is only logged. \<open>availabilityCache\<close> is a parsed JSON
  object: the map holds its own properties, whose values are arbitrary values. The form
  fields arrive through the multipart parser; \<open>req_file\<close> is the stored name of the
  uploaded screenshot, if any.
\<close>

record file_store =
  availabilityCache :: "string \<rightharpoonup> jsval"
  bookingsCache :: "jsval list"

record request_env =
  date_now :: nat
  iso_now :: string
  req_file :: "string option"

text \<open>
  \<open>availabilityCache[key]\<close> reads an own property or, failing that, a member inherited
  from \<open>Object.prototype\<close>: one of its twelve names gives a built-in method, and
  \<open>__proto__\<close> gives the prototype object, of which only the conversion to a string
  matters here. An assignment writes an own property, except that \<open>__proto__\<close>, when it
  is not an own property, is the inherited setter, which ignores a number.
\<close>

definition object_prototype_keys :: "string list" where
  "object_prototype_keys =
     [''constructor'', ''__defineGetter__'', ''__defineSetter__'', ''hasOwnProperty'',
      ''__lookupGetter__'', ''__lookupSetter__'', ''isPrototypeOf'', ''propertyIsEnumerable'',
      ''toString'', ''valueOf'', ''__proto__'', ''toLocaleString'']"

definition inherited :: "string \<Rightarrow> jsval" where
  "inherited key =
     (if key = ''__proto__'' then JObj []
      else if key \<in> set object_prototype_keys then JFun key
      else JUndef)"

definition cache_get :: "file_store \<Rightarrow> string \<Rightarrow> jsval" where
  "cache_get st key = (case availabilityCache st key of None \<Rightarrow> inherited key | Some v \<Rightarrow> v)"

definition cache_put :: "file_store \<Rightarrow> string \<Rightarrow> jsnum \<Rightarrow> file_store" where
  "cache_put st key n =
     (if key = ''__proto__'' \<and> availabilityCache st key = None then st
      else st\<lparr>availabilityCache := (availabilityCache st)(key \<mapsto> JNum n)\<rparr>)"

definition room_type_file :: "(string \<times> jsval) list \<Rightarrow> jsval" where
  "room_type_file body = js_or (js_or (field body ''Room Type'') (field body ''room_type'')) (JStr [])"

definition quantity_file :: "(string \<times> jsval) list \<Rightarrow> jsval" where
  "quantity_file body =
     js_or (js_or (field body ''Number of Rooms'') (field body ''quantity'')) (JNum (Fin 1))"

definition booking_file :: "request_env \<Rightarrow> (string \<times> jsval) list \<Rightarrow> jsval" where
  "booking_file env body = JObj
     [(''id'', JStr (''bk_'' @ show_nat (date_now env))),
      (''timestamp'', JStr (iso_now env)),
      (''room_type'', room_type_file body),
      (''quantity'', quantity_file body),
      (''check_in'', js_or (js_or (field body ''Check In'') (field body ''check_in'')) (JStr [])),
      (''check_out'', js_or (js_or (field body ''Check Out'') (field body ''check_out'')) (JStr [])),
      (''guest_name'',
         js_or (js_or (field body ''Guest Name'') (field body ''guest_name'')) (JStr [])),
      (''contact_number'',
         js_or (js_or (field body ''Guest Phone'') (field body ''contact_number'')) (JStr [])),
      (''valid_id'', js_or (js_or (field body ''Valid Id'') (field body ''valid_id'')) (JStr [])),
      (''total_amount'',
         js_or (js_or (field body ''Payment Amount'') (field body ''total_amount'')) (JStr [])),
      (''payment_channel'',
         js_or (js_or (field body ''Payment Method'') (field body ''payment_channel'')) (JStr [])),
      (''reference_number'',
         js_or (js_or (field body ''Reference Number'') (field body ''reference_number''))
               (JStr [])),
      (''additional_requests'',
         js_or (js_or (field body ''Additional Requestss'') (field body ''additional_requests''))
               (JStr [])),
      (''screenshot_path'',
         JStr (case req_file env of None \<Rightarrow> [] | Some filename \<Rightarrow> ''uploads/'' @ filename))]"

definition sold_out_file :: "jsnum \<Rightarrow> string \<Rightarrow> string" where
  "sold_out_file currentStock roomType =
     ''Sorry, not enough rooms. Only '' @ show_num currentStock @ '' left for '' @ roomType @ ''.''"

text \<open>The tail of the handler: \<open>bookingsCache.unshift(booking)\<close> and the success reply.\<close>

definition save_file :: "jsval \<Rightarrow> file_store \<Rightarrow> response \<times> file_store" where
  "save_file booking st =
     (\<lparr>status = 200, json = JObj [(''success'', JBool True), (''booking'', booking)]\<rparr>,
      st\<lparr>bookingsCache := booking # bookingsCache st\<rparr>)"

definition submit_file ::
  "request_env \<Rightarrow> file_store \<Rightarrow> (string \<times> jsval) list \<Rightarrow> response \<times> file_store" where
  "submit_file env st body =
     (let booking = booking_file env body;
          roomType = js_to_string (room_type_file body);
          requestedQty = js_parseInt (quantity_file body) in
      if cache_get st roomType \<noteq> JUndef
      then
        let currentStock = js_parseInt (cache_get st roomType) in
        if js_lt currentStock requestedQty
        then (\<lparr>status = 400, json = error_json (sold_out_file currentStock roomType)\<rparr>, st)
        else save_file booking (cache_put st roomType (js_sub currentStock requestedQty))
      else save_file booking st)"

section \<open>POST /api/rooms/bulk-update\<close>

text \<open>
  The request body is an object from room names to counts; \<open>Object.entries\<close> lists its
  entries in order, here a list of pairs. The store call made for the \<open>i\<close>-th entry of a
  request returns the error \<open>out i\<close>, or none. \<open>parseInt(count)\<close> throws when the
  conversion of the count to a string does; the loop then ends in the \<open>catch\<close> block of the
  handler, and the left summand of the loop's result is the store at that moment.
\<close>

subsection \<open>server.js\<close>

record results =
  success :: "string list"
  errors :: "string list"

definition count_prod :: "jsval \<Rightarrow> jsnum" where
  "count_prod count = or_num (js_parseInt count) (Fin 0)"

fun bulk_loop_prod ::
  "(nat \<Rightarrow> string option) \<Rightarrow> nat \<Rightarrow> (string \<times> jsval) list \<Rightarrow> store \<times> results \<Rightarrow>
   store + store \<times> results"
where
  "bulk_loop_prod out i [] (st, r) = Inr (st, r)"
| "bulk_loop_prod out i ((room, count) # es) (st, r) =
     (if to_string_throws count then Inl st
      else (case out i of
              Some e \<Rightarrow>
                bulk_loop_prod out (Suc i) es (st, r\<lparr>errors := errors r @ [room @ '': '' @ e]\<rparr>)
            | None \<Rightarrow>
                bulk_loop_prod out (Suc i) es
                  (update_available st (trim room) (to_cell (count_prod count)),
                   r\<lparr>success := success r @ [room]\<rparr>)))"

definition reply_prod :: "results \<Rightarrow> response" where
  "reply_prod r =
     (if errors r \<noteq> []
      then \<lparr>status = 207,
             json = JObj [(''success'', JBool (success r \<noteq> [])),
                          (''errors'', JArr (map JStr (errors r)))]\<rparr>
      else \<lparr>status = 200,
             json = JObj [(''success'', JBool True), (''message'', JStr ''All rooms synced'')]\<rparr>)"

definition bulk_update_prod ::
  "(nat \<Rightarrow> string option) \<Rightarrow> store \<Rightarrow> (string \<times> jsval) list \<Rightarrow> response \<times> store" where
  "bulk_update_prod out st updates =
     (case bulk_loop_prod out 0 updates (st, \<lparr>success = [], errors = []\<rparr>) of
        Inl st' \<Rightarrow> (\<lparr>status = 500, json = error_json ''Sync failed''\<rparr>, st')
      | Inr (st', r) \<Rightarrow> (reply_prod r, st'))"

subsection \<open>part_000, hosted variant\<close>







subsection \<open>part_001\<close>

text \<open>
  The loop only builds the update requests: a request is sent when it is awaited, and all
  are awaited together after the loop. A count that throws therefore ends the handler in
  its \<open>catch\<close> block before any update is sent. Each result is the error of the call or
  the first updated row, undefined when the key matched no row; of the row only the two
  columns the handlers read are modelled.
\<close>

definition updated_row :: "store \<Rightarrow> string \<Rightarrow> cell \<Rightarrow> jsval" where
  "updated_row st roomType v =
     (case rooms st roomType of
        None \<Rightarrow> JUndef
      | Some _ \<Rightarrow> JObj [(''room_type'', JStr roomType), (''available'', cell_val v)])"

fun bulk_calls_alias ::
  "(nat \<Rightarrow> string option) \<Rightarrow> nat \<Rightarrow> (string \<times> jsval) list \<Rightarrow> store \<Rightarrow> store \<times> (string + jsval) list"
where
  "bulk_calls_alias out i [] st = (st, [])"
| "bulk_calls_alias out i ((roomType, available) # es) st =
     (case out i of
        Some e \<Rightarrow>
          (let (st', rs) = bulk_calls_alias out (Suc i) es st in (st', Inl e # rs))
      | None \<Rightarrow>
          (let v = to_cell (js_parseInt available);
               (st', rs) = bulk_calls_alias out (Suc i) es (update_available st roomType v)
           in (st', Inr (updated_row st roomType v) # rs)))"

definition bulk_update_alias ::
  "(nat \<Rightarrow> string option) \<Rightarrow> store \<Rightarrow> (string \<times> jsval) list \<Rightarrow> response \<times> store" where
  "bulk_update_alias out st updates =
     (if \<exists>e\<in>set updates. to_string_throws (snd e)
      then (\<lparr>status = 500,
             json = error_details_json ''Failed to update room availability''
                      type_error_message\<rparr>, st)
      else
        let (st', results) = bulk_calls_alias out 0 updates st;
            errs = [e. Inl e \<leftarrow> results]
        in if errs \<noteq> []
           then (\<lparr>status = 500,
                  json = JObj [(''error'', JStr ''Some room updates failed''),
                               (''details'', JArr (map JStr errs))]\<rparr>, st')
           else (\<lparr>status = 200,
                  json = JObj [(''success'', JBool True),
                               (''message'', JStr ''All room availability updated''),
                               (''updatedRooms'', JArr [d. Inr d \<leftarrow> results])]\<rparr>, st'))"

subsection \<open>The summaries when the loops end\<close>



text \<open>The store a loop leaves, whichever way it ended.\<close>

fun store_of :: "store + store \<times> 'a \<Rightarrow> store" where
  "store_of (Inl st) = st"
| "store_of (Inr (st, _)) = st"

section \<open>Properties of the ledger\<close>

text \<open>Every room type of the ledger has an integer count that is not negative.\<close>

definition nonneg_ledger :: "store \<Rightarrow> bool" where
  "nonneg_ledger st = (\<forall>k c. rooms st k = Some c \<longrightarrow> (\<exists>n. c = Some n \<and> 0 \<le> n))"

section \<open>Example inputs\<close>

text \<open>
  The scenario of the specification: one room type, Suite, with three rooms left, a
  store whose calls all succeed, and a request for \<open>q\<close> Suites.
\<close>

definition no_faults :: faults where
  "no_faults = \<lparr>select_err = None, update_err = None, insert_err = None, rollback_err = None,
                 no_rows_msg = ''JSON object requested, multiple (or no) rows returned''\<rparr>"

definition suite_store :: store where
  "suite_store = \<lparr>rooms = [''Suite'' \<mapsto> Some 3], bookings = []\<rparr>"

definition suite_request :: "int \<Rightarrow> (string \<times> jsval) list" where
  "suite_request q = [(''room_type'', JStr ''Suite''), (''quantity'', JNum (Fin q))]"

text \<open>The same for the file-store variant, whose default ledger names the room \<open>Suite Room\<close>.\<close>

definition suite_cache :: file_store where
  "suite_cache = \<lparr>availabilityCache = [''Suite Room'' \<mapsto> JNum (Fin 3)], bookingsCache = []\<rparr>"

definition example_env :: request_env where
  "example_env = \<lparr>date_now = 1700, iso_now = ''2024-01-01T00:00:00.000Z'', req_file = None\<rparr>"






section \<open>Facts about the operators\<close>

lemma of_char_digit_char: "d < 10 \<Longrightarrow> (of_char (digit_char d) :: nat) = 48 + d"
  by (simp add: digit_char_def)

lemma digit_val_digit_char: "d < 10 \<Longrightarrow> digit_val (digit_char d) = Some d"
  by (simp add: digit_val_def of_char_digit_char)

lemma is_digit_digit_char: "d < 10 \<Longrightarrow> is_digit 10 (digit_char d)"
  by (simp add: is_digit_def digit_val_digit_char)

lemma ws_len_ascii:
  assumes "(of_char c :: nat) < 128" and "\<not> (9 \<le> (of_char c :: nat) \<and> (of_char c :: nat) \<le> 13)"
    and "(of_char c :: nat) \<noteq> 32"
  shows "ws_len (c # cs) = 0"
proof (cases cs)
  case Nil
  with assms show ?thesis by (simp add: ws_len_def is_ws_bytes_def Let_def)
next
  case (Cons d ds)
  with assms show ?thesis
    by (cases ds) (simp_all add: ws_len_def is_ws_bytes_def Let_def)
qed

lemma skip_ws_ascii:
  assumes "(of_char c :: nat) < 128" and "\<not> (9 \<le> (of_char c :: nat) \<and> (of_char c :: nat) \<le> 13)"
    and "(of_char c :: nat) \<noteq> 32"
  shows "skip_ws (c # cs) = c # cs"
  using ws_len_ascii [OF assms] by (subst skip_ws.simps) simp

lemma skip_ws_digit_char: "d < 10 \<Longrightarrow> skip_ws (digit_char d # cs) = digit_char d # cs"
  by (rule skip_ws_ascii) (simp_all add: of_char_digit_char)

lemma digit_char_neq: "d < 10 \<Longrightarrow> (of_char c :: nat) < 48 \<or> 57 < (of_char c :: nat) \<Longrightarrow> digit_char d \<noteq> c"
  using of_char_digit_char [of d] by auto

lemma digit_char_not_sign:
  "d < 10 \<Longrightarrow> digit_char d \<noteq> CHR ''-''" "d < 10 \<Longrightarrow> digit_char d \<noteq> CHR ''+''"
  "d < 10 \<Longrightarrow> digit_char d \<noteq> CHR ''x''" "d < 10 \<Longrightarrow> digit_char d \<noteq> CHR ''X''"
  by (rule digit_char_neq, simp, simp)+

lemma show_nat_digits: "c \<in> set (show_nat n) \<Longrightarrow> \<exists>d<10. c = digit_char d"
proof (induction n rule: show_nat.induct)
  case (1 n)
  show ?case
  proof (cases "n < 10")
    case True
    with "1.prems" have "c = digit_char n" by (subst (asm) show_nat.simps) simp
    with True show ?thesis by blast
  next
    case False
    with "1.prems" have "c \<in> set (show_nat (n div 10)) \<or> c = digit_char (n mod 10)"
      by (subst (asm) show_nat.simps) auto
    then show ?thesis
    proof
      assume "c \<in> set (show_nat (n div 10))"
      with False "1.IH" show ?thesis by blast
    next
      assume c: "c = digit_char (n mod 10)"
      have "n mod 10 < 10" by simp
      with c show ?thesis by blast
    qed
  qed
qed

lemma show_nat_nonempty: "show_nat n \<noteq> []"
  by (subst show_nat.simps) simp

lemma digits_value_snoc: "digits_value r (z @ [c]) = digits_value r z * r + the (digit_val c)"
  by (simp add: digits_value_def)

lemma digits_value_show_nat: "digits_value 10 (show_nat n) = n"
proof (induction n rule: show_nat.induct)
  case (1 n)
  show ?case
  proof (cases "n < 10")
    case True
    then show ?thesis by (subst show_nat.simps) (simp add: digits_value_def digit_val_digit_char)
  next
    case False
    with 1 show ?thesis
      by (subst show_nat.simps) (simp add: digits_value_snoc digit_val_digit_char)
  qed
qed

lemma parse_int_decimal:
  assumes ne: "s \<noteq> []" and dg: "\<And>c. c \<in> set s \<Longrightarrow> \<exists>d<10. c = digit_char d"
  shows "parse_int s = Fin (int (digits_value 10 s))"
    and "parse_int (CHR ''-'' # s) = Fin (- int (digits_value 10 s))"
proof -
  obtain c cs where s: "s = c # cs" using ne by (cases s) auto
  obtain d where d: "d < 10" "c = digit_char d" using dg [of c] s by auto
  have c2: "c \<noteq> CHR ''-''" "c \<noteq> CHR ''+''" using d digit_char_not_sign by auto
  have sp: "skip_ws s = s" using s d skip_ws_digit_char by simp
  have neg: "(case s of c # _ \<Rightarrow> c = CHR ''-'' | [] \<Rightarrow> False) = False" using s c2 by simp
  have s2: "(case s of c # r \<Rightarrow> if c = CHR ''-'' \<or> c = CHR ''+'' then r else s | [] \<Rightarrow> s) = s"
    using s c2 by simp
  have nx: "CHR ''x'' \<notin> set s" "CHR ''X'' \<notin> set s"
  proof -
    show "CHR ''x'' \<notin> set s"
    proof
      assume "CHR ''x'' \<in> set s"
      then obtain e where "e < 10" "CHR ''x'' = digit_char e" using dg by blast
      then show False using digit_char_not_sign(3) [of e] by simp
    qed
    show "CHR ''X'' \<notin> set s"
    proof
      assume "CHR ''X'' \<in> set s"
      then obtain e where "e < 10" "CHR ''X'' = digit_char e" using dg by blast
      then show False using digit_char_not_sign(4) [of e] by simp
    qed
  qed
  have hx: "take 2 s \<noteq> ''0x''" "take 2 s \<noteq> ''0X''"
  proof -
    { assume "take 2 s = ''0x''"
      then have "CHR ''x'' \<in> set (take 2 s)" by simp
      then have False using nx by (auto dest: in_set_takeD) }
    then show "take 2 s \<noteq> ''0x''" by blast
    { assume "take 2 s = ''0X''"
      then have "CHR ''X'' \<in> set (take 2 s)" by simp
      then have False using nx by (auto dest: in_set_takeD) }
    then show "take 2 s \<noteq> ''0X''" by blast
  qed
  have tw: "takeWhile (is_digit 10) s = s"
    using dg is_digit_digit_char by (auto simp: takeWhile_eq_all_conv)
  show "parse_int s = Fin (int (digits_value 10 s))"
    unfolding parse_int_def Let_def sp neg s2 by (simp add: hx tw ne)
  have sp': "skip_ws (CHR ''-'' # s) = CHR ''-'' # s" by (rule skip_ws_ascii) simp_all
  show "parse_int (CHR ''-'' # s) = Fin (- int (digits_value 10 s))"
    unfolding parse_int_def Let_def sp' by (simp add: hx tw ne)
qed

lemma parse_int_show_int: "parse_int (show_int i) = Fin i"
  using parse_int_decimal [OF show_nat_nonempty show_nat_digits]
  by (simp add: show_int_def digits_value_show_nat)

lemma js_parseInt_num: "js_parseInt (JNum (Fin i)) = Fin i"
  by (simp add: js_parseInt_def parse_int_show_int)

section \<open>Facts about the store\<close>

lemma select_single_found:
  "select_err f = None \<Longrightarrow> rooms st key = Some c \<Longrightarrow> select_single f st key = Inr c"
  by (simp add: select_single_def)


lemma bookings_update_available: "bookings (update_available st key v) = bookings st"
  by (simp add: update_available_def split: option.splits)



lemma suite_request_qty:
  "q \<noteq> 0 \<Longrightarrow> qty_prod (suite_request q) = Fin q"
  "q \<noteq> 0 \<Longrightarrow> qty_cloud (suite_request q) = Fin q"
  "q \<noteq> 0 \<Longrightarrow> number_of_rooms_alias (suite_request q) = Fin q"
  by (simp_all add: qty_prod_def qty_cloud_def number_of_rooms_alias_def suite_request_def field_def
      js_or_def or_num_def js_parseInt_num)

section \<open>Reserving rooms\<close>



section \<open>Compensation after a failed insert\<close>








section \<open>A failed rollback\<close>




section \<open>The sold-out message\<close>




section \<open>The stored record\<close>

lemma submit_prod_accepted:
  "status (fst (submit_prod f st b)) = 200 \<Longrightarrow>
   bookings (snd (submit_prod f st b)) = bookings st @ [record_prod b (qty_prod b)]"
  by (auto simp: submit_prod_def Let_def caught_prod_def bookings_update_available
      split: sum.splits option.splits if_splits)

lemma submit_alias_accepted:
  "status (fst (submit_alias f st b)) = 200 \<Longrightarrow>
   bookings (snd (submit_alias f st b)) = bookings st @ [booking_alias b]"
  by (auto simp: submit_alias_def Let_def caught_alias_def bookings_update_available
      split: sum.splits option.splits if_splits)

text \<open>
  C10, as the code has it. Every booking that \<open>server.js\<close> accepts is stored with
  \<open>coming_with_id\<close> true exactly when the request's \<open>valid_id\<close> is the string \<open>Yes\<close>.
  Every booking that \<open>part_001\<close> accepts is stored with \<open>coming_with_id\<close> true exactly
  when \<open>valid_id\<close> is the string \<open>Yes\<close>, or the field \<open>Valid Id\<close> is the string \<open>Yes\<close>,
  or \<open>coming_with_id\<close> is the boolean true or the string \<open>true\<close>.
\<close>

theorem coming_with_id_stored:
  "(status (fst (submit_prod f st b)) = 200 \<longrightarrow>
      (\<exists>r. bookings (snd (submit_prod f st b)) = bookings st @ [r] \<and>
           js_get r ''coming_with_id'' = JBool (field b ''valid_id'' = JStr ''Yes''))) \<and>
   (status (fst (submit_alias f st b)) = 200 \<longrightarrow>
      (\<exists>r. bookings (snd (submit_alias f st b)) = bookings st @ [r] \<and>
           js_get r ''coming_with_id'' =
             JBool (field b ''valid_id'' = JStr ''Yes'' \<or> field b ''Valid Id'' = JStr ''Yes'' \<or>
                    field b ''coming_with_id'' = JBool True \<or>
                    field b ''coming_with_id'' = JStr ''true'')))"
proof (intro conjI impI)
  assume "status (fst (submit_prod f st b)) = 200"
  then have "bookings (snd (submit_prod f st b)) = bookings st @ [record_prod b (qty_prod b)]"
    by (rule submit_prod_accepted)
  moreover have "js_get (record_prod b (qty_prod b)) ''coming_with_id'' =
      JBool (field b ''valid_id'' = JStr ''Yes'')"
    by (simp add: record_prod_def field_def)
  ultimately show "\<exists>r. bookings (snd (submit_prod f st b)) = bookings st @ [r] \<and>
           js_get r ''coming_with_id'' = JBool (field b ''valid_id'' = JStr ''Yes'')"
    by blast
next
  assume "status (fst (submit_alias f st b)) = 200"
  then have "bookings (snd (submit_alias f st b)) = bookings st @ [booking_alias b]"
    by (rule submit_alias_accepted)
  moreover have "js_get (booking_alias b) ''coming_with_id'' = JBool (coming_with_id_alias b)"
    by (simp add: booking_alias_def field_def)
  moreover have "coming_with_id_alias b =
      (field b ''valid_id'' = JStr ''Yes'' \<or> field b ''Valid Id'' = JStr ''Yes'' \<or>
       field b ''coming_with_id'' = JBool True \<or> field b ''coming_with_id'' = JStr ''true'')"
    by (auto simp: coming_with_id_alias_def)
  ultimately show "\<exists>r. bookings (snd (submit_alias f st b)) = bookings st @ [r] \<and>
           js_get r ''coming_with_id'' =
             JBool (field b ''valid_id'' = JStr ''Yes'' \<or> field b ''Valid Id'' = JStr ''Yes'' \<or>
                    field b ''coming_with_id'' = JBool True \<or>
                    field b ''coming_with_id'' = JStr ''true'')"
    by simp
qed

theorem coming_with_id_stored_witness:
  "(\<exists>r. bookings (snd (submit_prod no_faults suite_store
                         ((''valid_id'', JStr ''yes'') # suite_request 2))) = [r] \<and>
        js_get r ''coming_with_id'' = JBool False) \<and>
   (\<exists>r. bookings (snd (submit_prod no_faults suite_store
                         ((''valid_id'', JStr ''Yes'') # suite_request 2))) = [r] \<and>
        js_get r ''coming_with_id'' = JBool True) \<and>
   (\<exists>r. bookings (snd (submit_alias no_faults suite_store
                         ((''coming_with_id'', JStr ''true'') # suite_request 2))) = [r] \<and>
        js_get r ''coming_with_id'' = JBool True)"
proof -
  have f: "select_err no_faults = None" "update_err no_faults = None" "insert_err no_faults = None"
    by (simp_all add: no_faults_def)
  have r: "rooms suite_store ''Suite'' = Some (Some 3)" by (simp add: suite_store_def)
  have e: "bookings suite_store = []" by (simp add: suite_store_def)
  have q: "qty_prod ((''valid_id'', v) # suite_request 2) = Fin 2"
    "number_of_rooms_alias ((''coming_with_id'', v) # suite_request 2) = Fin 2" for v
    by (simp_all add: qty_prod_def number_of_rooms_alias_def suite_request_def field_def
        js_or_def or_num_def js_parseInt_num)
  have k: "field ((''valid_id'', v) # suite_request 2) ''room_type'' = JStr ''Suite''"
    "room_category_alias ((''coming_with_id'', v) # suite_request 2) = JStr ''Suite''" for v
    by (simp_all add: room_category_alias_def suite_request_def field_def js_or_def)
  have s1: "status (fst (submit_prod no_faults suite_store ((''valid_id'', v) # suite_request 2))) = 200"
    for v
    using f r by (simp add: submit_prod_def Let_def select_single_found q k)
  have s2: "status (fst (submit_alias no_faults suite_store
                           ((''coming_with_id'', v) # suite_request 2))) = 200" for v
    using f r by (simp add: submit_alias_def Let_def select_single_found q k)
  from coming_with_id_stored [of no_faults suite_store "(''valid_id'', JStr ''yes'') # suite_request 2"]
       coming_with_id_stored [of no_faults suite_store "(''valid_id'', JStr ''Yes'') # suite_request 2"]
       coming_with_id_stored [of no_faults suite_store
         "(''coming_with_id'', JStr ''true'') # suite_request 2"]
  show ?thesis
    using s1 s2 e by (simp add: field_def suite_request_def)
qed

text \<open>
  C10, as the specification states it, fails in \<open>part_001\<close>: a request that sends
  \<open>Valid Id\<close> as \<open>Yes\<close>, with no \<open>valid_id\<close> and no \<open>coming_with_id\<close>, is accepted and stored
  with \<open>coming_with_id\<close> true.
\<close>

theorem coming_with_id_counterexample:
  "field ((''Valid Id'', JStr ''Yes'') # suite_request 2) ''valid_id'' = JUndef \<and>
   field ((''Valid Id'', JStr ''Yes'') # suite_request 2) ''coming_with_id'' = JUndef \<and>
   status (fst (submit_alias no_faults suite_store
                  ((''Valid Id'', JStr ''Yes'') # suite_request 2))) = 200 \<and>
   js_get (last (bookings (snd (submit_alias no_faults suite_store
                                  ((''Valid Id'', JStr ''Yes'') # suite_request 2)))))
     ''coming_with_id'' = JBool True"
proof -
  let ?b = "(''Valid Id'', JStr ''Yes'') # suite_request 2"
  have q: "number_of_rooms_alias ?b = Fin 2"
    by (simp add: number_of_rooms_alias_def suite_request_def field_def js_or_def js_parseInt_num)
  have k: "room_category_alias ?b = JStr ''Suite''"
    by (simp add: room_category_alias_def suite_request_def field_def js_or_def)
  have c: "js_get (booking_alias ?b) ''coming_with_id'' = JBool True"
    by (simp add: booking_alias_def coming_with_id_alias_def field_def)
  have u: "field ?b ''valid_id'' = JUndef" "field ?b ''coming_with_id'' = JUndef"
    by (simp_all add: field_def suite_request_def)
  show ?thesis
    by (simp add: u submit_alias_def Let_def select_single_def update_available_def no_faults_def
        suite_store_def q k c)
qed

section \<open>The default quantity\<close>

text \<open>
  C7 holds in \<open>server.js\<close>, where \<open>parseInt(b.quantity) || 1\<close> turns an omitted or
  unparseable quantity into 1. The file-store variant applies \<open>|| 1\<close> before \<open>parseInt\<close>,
  which covers the omitted quantity only: for the quantity \<open>abc\<close> the requested quantity
  is NaN, the stock check passes, and the room type's count becomes NaN instead of 2.
\<close>

theorem unparseable_quantity_file:
  "js_parseInt (quantity_file [(''room_type'', JStr ''Suite Room''), (''quantity'', JStr ''abc'')]) = NaN \<and>
   status (fst (submit_file example_env suite_cache
                  [(''room_type'', JStr ''Suite Room''), (''quantity'', JStr ''abc'')])) = 200 \<and>
   availabilityCache (snd (submit_file example_env suite_cache
                  [(''room_type'', JStr ''Suite Room''), (''quantity'', JStr ''abc'')]))
     ''Suite Room'' = Some (JNum NaN) \<and>
   availabilityCache (snd (submit_file example_env suite_cache
                  [(''room_type'', JStr ''Suite Room'')])) ''Suite Room'' = Some (JNum (Fin 2)) \<and>
   qty_prod [(''room_type'', JStr ''Suite''), (''quantity'', JStr ''abc'')] = Fin 1"
proof -
  let ?b = "[(''room_type'', JStr ''Suite Room''), (''quantity'', JStr ''abc'')]"
  let ?c = "[(''room_type'', JStr ''Suite Room'')]"
  have q: "js_parseInt (quantity_file ?b) = NaN" "js_parseInt (quantity_file ?c) = Fin 1"
    "qty_prod [(''room_type'', JStr ''Suite''), (''quantity'', JStr ''abc'')] = Fin 1"
    by code_simp+
  have k: "js_to_string (room_type_file ?b) = ''Suite Room''"
    "js_to_string (room_type_file ?c) = ''Suite Room''"
    by (simp_all add: room_type_file_def field_def js_or_def)
  show ?thesis
    by (simp add: q k submit_file_def Let_def cache_get_def cache_put_def save_file_def
        suite_cache_def js_parseInt_num)
qed

section \<open>Facts about the bulk updates\<close>


lemma rooms_update_available_same:
  "rooms st key \<noteq> None \<Longrightarrow> rooms (update_available st key v) key = Some v"
  by (auto simp: update_available_def split: option.splits)

lemma nonneg_ledger_update:
  "nonneg_ledger st \<Longrightarrow> 0 \<le> n \<Longrightarrow> nonneg_ledger (update_available st key (Some n))"
  by (auto simp: nonneg_ledger_def update_available_def split: option.splits if_splits)

lemma count_prod_cases:
  "count_prod c = (case js_parseInt c of NaN \<Rightarrow> Fin 0 | Fin n \<Rightarrow> Fin n)"
  by (simp add: count_prod_def or_num_def split: jsnum.splits)

subsection \<open>server.js\<close>








lemma bulk_loop_prod_nonneg:
  "nonneg_ledger st \<Longrightarrow>
   (\<And>e n. e \<in> set es \<Longrightarrow> js_parseInt (snd e) = Fin n \<Longrightarrow> 0 \<le> n) \<Longrightarrow>
   nonneg_ledger (store_of (bulk_loop_prod out i es (st, r)))"
proof (induction es arbitrary: i st r)
  case Nil
  then show ?case by simp
next
  case (Cons e es)
  obtain k c where e: "e = (k, c)" by (cases e)
  have "\<exists>n. count_prod c = Fin n \<and> 0 \<le> n"
    using Cons.prems(2) [of e] e by (auto simp: count_prod_cases split: jsnum.splits)
  then obtain n where n: "count_prod c = Fin n" "0 \<le> n" by blast
  have st1: "nonneg_ledger (update_available st (trim k) (to_cell (count_prod c)))"
    using n Cons.prems(1) by (simp add: nonneg_ledger_update)
  have rest: "\<And>e n. e \<in> set es \<Longrightarrow> js_parseInt (snd e) = Fin n \<Longrightarrow> 0 \<le> n"
    using Cons.prems(2) by auto
  show ?case
    using e Cons.prems(1) Cons.IH [OF st1 rest] Cons.IH [OF Cons.prems(1) rest]
    by (cases "out i") simp_all
qed

lemma snd_bulk_update_prod:
  "snd (bulk_update_prod out st ups) =
     store_of (bulk_loop_prod out 0 ups (st, \<lparr>success = [], errors = []\<rparr>))"
  by (simp add: bulk_update_prod_def split: sum.splits prod.splits)

subsection \<open>part_000, hosted variant\<close>
















subsection \<open>part_001\<close>



lemma nonneg_ledger_bookings [simp]:
  "nonneg_ledger (st\<lparr>bookings := bs\<rparr>) = nonneg_ledger st"
  by (simp add: nonneg_ledger_def)

lemma qty_prod_Fin: "\<exists>q. qty_prod b = Fin q"
  by (cases "js_parseInt (field b ''quantity'')") (simp_all add: qty_prod_def or_num_def)

lemma qty_cloud_Fin: "\<exists>q. qty_cloud b = Fin q"
  by (cases "js_parseInt (field b ''quantity'')") (simp_all add: qty_cloud_def or_num_def)

lemma submit_prod_nonneg:
  assumes inv: "nonneg_ledger st"
  shows "nonneg_ledger (snd (submit_prod f st b))"
proof (cases "select_single f st (js_to_string (field b ''room_type''))")
  case (Inl e)
  then show ?thesis using inv by (simp add: submit_prod_def Let_def)
next
  case (Inr c)
  then have "rooms st (js_to_string (field b ''room_type'')) = Some c"
    by (simp add: select_single_def split: option.splits)
  with inv obtain N where N: "c = Some N" "0 \<le> N" by (auto simp: nonneg_ledger_def)
  obtain q where q: "qty_prod b = Fin q" using qty_prod_Fin by blast
  have d: "\<not> N < q \<Longrightarrow> nonneg_ledger (update_available st k (Some (N - q)))" for k
    using inv by (simp add: nonneg_ledger_update)
  have r: "\<not> N < q \<Longrightarrow>
      nonneg_ledger (update_available (update_available st k (Some (N - q))) k' (Some N))" for k k'
    using d N by (simp add: nonneg_ledger_update)
  show ?thesis
    using Inr N q inv d r by (simp add: submit_prod_def Let_def split: option.splits)
qed

lemma submit_cloud_nonneg:
  assumes inv: "nonneg_ledger st"
  shows "nonneg_ledger (snd (submit_cloud f st b))"
proof (cases "select_single f st (js_to_string (field b ''room_type''))")
  case (Inl e)
  then show ?thesis using inv by (simp add: submit_cloud_def Let_def)
next
  case (Inr c)
  then have "rooms st (js_to_string (field b ''room_type'')) = Some c"
    by (simp add: select_single_def split: option.splits)
  with inv obtain N where N: "c = Some N" "0 \<le> N" by (auto simp: nonneg_ledger_def)
  obtain q where q: "qty_cloud b = Fin q" using qty_cloud_Fin by blast
  have d: "\<not> N < q \<Longrightarrow> nonneg_ledger (update_available st k (Some (N - q)))" for k
    using inv by (simp add: nonneg_ledger_update)
  have r: "\<not> N < q \<Longrightarrow>
      nonneg_ledger (update_available (update_available st k (Some (N - q))) k' (Some N))" for k k'
    using d N by (simp add: nonneg_ledger_update)
  show ?thesis
    using Inr N q inv d r by (simp add: submit_cloud_def Let_def split: option.splits)
qed

lemma bulk_update_prod_single:
  "\<not> to_string_throws c \<Longrightarrow> out 0 = None \<Longrightarrow>
   snd (bulk_update_prod out st [(k, c)]) = update_available st (trim k) (to_cell (count_prod c))"
  by (simp add: bulk_update_prod_def)

lemma bulk_update_alias_single:
  "\<not> to_string_throws c \<Longrightarrow> out 0 = None \<Longrightarrow>
   snd (bulk_update_alias out st [(k, c)]) = update_available st k (to_cell (js_parseInt c))"
  by (simp add: bulk_update_alias_def Let_def)

section \<open>Non-negative counts\<close>

text \<open>
  C4, as the code has it. For a requested quantity within the safe integers, the booking
  handlers of \<open>server.js\<close> and of the hosted variant of \<open>part_000\<close> keep every available
  count a non-negative integer. The bulk update does not clamp the count it is given. For
  a count whose conversion does not throw and that parses within the safe integers,
  \<open>server.js\<close> stores \<open>parseInt(count) || 0\<close>: 0 for a count that is not numeric and the
  parsed integer otherwise, so the stored value is non-negative exactly when the parsed
  count is not negative; a bulk update whose counts parse to nothing or to non-negative
  safe integers keeps the ledger non-negative. In \<open>part_001\<close> such a count that parses to
  an integer is stored as that integer.
\<close>

theorem counts_not_clamped:
  "(nonneg_ledger st \<and> safe_num (qty_prod b) \<longrightarrow> nonneg_ledger (snd (submit_prod f st b))) \<and>
   (nonneg_ledger st \<and> safe_num (qty_cloud b) \<longrightarrow> nonneg_ledger (snd (submit_cloud f st b))) \<and>
   (rooms st (trim k) \<noteq> None \<and> out 0 = None \<and> \<not> to_string_throws c \<and>
    safe_num (js_parseInt c) \<longrightarrow>
      (\<exists>m. rooms (snd (bulk_update_prod out st [(k, c)])) (trim k) = Some (Some m) \<and>
           (js_parseInt c = NaN \<longrightarrow> m = 0) \<and>
           (\<forall>n. js_parseInt c = Fin n \<longrightarrow> m = n) \<and>
           (0 \<le> m) = (\<forall>n. js_parseInt c = Fin n \<longrightarrow> 0 \<le> n))) \<and>
   (nonneg_ledger st \<and>
    (\<forall>e\<in>set ups. \<forall>n. js_parseInt (snd e) = Fin n \<longrightarrow> 0 \<le> n \<and> n \<le> max_safe) \<longrightarrow>
      nonneg_ledger (snd (bulk_update_prod out st ups))) \<and>
   (rooms st k \<noteq> None \<and> out 0 = None \<and> \<not> to_string_throws c \<and>
    js_parseInt c = Fin n \<and> safe_num (Fin n) \<longrightarrow>
      rooms (snd (bulk_update_alias out st [(k, c)])) k = Some (Some n))"
proof (intro conjI impI)
  assume "nonneg_ledger st \<and> safe_num (qty_prod b)"
  then show "nonneg_ledger (snd (submit_prod f st b))" by (simp add: submit_prod_nonneg)
next
  assume "nonneg_ledger st \<and> safe_num (qty_cloud b)"
  then show "nonneg_ledger (snd (submit_cloud f st b))" by (simp add: submit_cloud_nonneg)
next
  assume h: "rooms st (trim k) \<noteq> None \<and> out 0 = None \<and> \<not> to_string_throws c \<and>
    safe_num (js_parseInt c)"
  then have s: "rooms (snd (bulk_update_prod out st [(k, c)])) (trim k) =
      Some (to_cell (count_prod c))"
    by (simp add: bulk_update_prod_single rooms_update_available_same)
  show "\<exists>m. rooms (snd (bulk_update_prod out st [(k, c)])) (trim k) = Some (Some m) \<and>
           (js_parseInt c = NaN \<longrightarrow> m = 0) \<and>
           (\<forall>n. js_parseInt c = Fin n \<longrightarrow> m = n) \<and>
           (0 \<le> m) = (\<forall>n. js_parseInt c = Fin n \<longrightarrow> 0 \<le> n)"
    unfolding s by (cases "js_parseInt c") (simp_all add: count_prod_cases)
next
  assume h: "nonneg_ledger st \<and>
    (\<forall>e\<in>set ups. \<forall>n. js_parseInt (snd e) = Fin n \<longrightarrow> 0 \<le> n \<and> n \<le> max_safe)"
  then have "nonneg_ledger (store_of (bulk_loop_prod out 0 ups (st, \<lparr>success = [], errors = []\<rparr>)))"
    by (intro bulk_loop_prod_nonneg) blast+
  then show "nonneg_ledger (snd (bulk_update_prod out st ups))"
    by (simp add: snd_bulk_update_prod)
next
  assume "rooms st k \<noteq> None \<and> out 0 = None \<and> \<not> to_string_throws c \<and>
    js_parseInt c = Fin n \<and> safe_num (Fin n)"
  then show "rooms (snd (bulk_update_alias out st [(k, c)])) k = Some (Some n)"
    by (simp add: bulk_update_alias_single rooms_update_available_same)
qed

lemma nonneg_suite_store: "nonneg_ledger suite_store"
  by (auto simp: nonneg_ledger_def suite_store_def split: if_splits)

lemma trim_examples:
  "trim ''Suite'' = ''Suite''" "trim ''BadRoom'' = ''BadRoom''" "trim ''Twin'' = ''Twin''"
  by code_simp+

lemma parse_examples:
  "js_parseInt (JStr ''abc'') = NaN"
  "js_parseInt (JStr [char_of (194 :: nat), char_of (160 :: nat), CHR ''5'']) = Fin 5"
  by code_simp+

theorem counts_not_clamped_witness:
  "nonneg_ledger (snd (submit_prod no_faults suite_store (suite_request 2))) \<and>
   rooms (snd (bulk_update_prod (\<lambda>_. None) suite_store [(''Suite'', JStr ''abc'')])) ''Suite'' =
     Some (Some 0) \<and>
   rooms (snd (bulk_update_prod (\<lambda>_. None) suite_store
                 [(''Suite'', JStr [char_of (194 :: nat), char_of (160 :: nat), CHR ''5''])]))
     ''Suite'' = Some (Some 5) \<and>
   nonneg_ledger (snd (bulk_update_prod (\<lambda>_. None) suite_store [(''Suite'', JNum (Fin 5))])) \<and>
   rooms (snd (bulk_update_alias (\<lambda>_. None) suite_store [(''Suite'', JNum (Fin 5))])) ''Suite'' =
     Some (Some 5)"
proof -
  have r: "rooms suite_store ''Suite'' \<noteq> None" by (simp add: suite_store_def)
  have p: "\<forall>e\<in>set [(''Suite'', JNum (Fin 5))].
      \<forall>n. js_parseInt (snd e) = Fin n \<longrightarrow> 0 \<le> n \<and> n \<le> max_safe"
    by (simp add: js_parseInt_num max_safe_def)
  note a = counts_not_clamped [where st = suite_store and f = no_faults and b = "suite_request 2"
      and k = "''Suite''" and out = "\<lambda>_. None" and c = "JStr ''abc''"
      and ups = "[(''Suite'', JNum (Fin 5))]" and n = 0]
  note b = counts_not_clamped [where st = suite_store and f = no_faults and b = "suite_request 2"
      and k = "''Suite''" and out = "\<lambda>_. None" and c = "JNum (Fin 5)"
      and ups = "[(''Suite'', JNum (Fin 5))]" and n = 5]
  note c = counts_not_clamped [where st = suite_store and f = no_faults and b = "suite_request 2"
      and k = "''Suite''" and out = "\<lambda>_. None"
      and c = "JStr [char_of (194 :: nat), char_of (160 :: nat), CHR ''5'']"
      and ups = "[(''Suite'', JNum (Fin 5))]" and n = 5]
  have 1: "nonneg_ledger (snd (submit_prod no_faults suite_store (suite_request 2)))"
    using a nonneg_suite_store by (simp add: suite_request_qty max_safe_def)
  have 2: "rooms (snd (bulk_update_prod (\<lambda>_. None) suite_store [(''Suite'', JStr ''abc'')]))
      ''Suite'' = Some (Some 0)"
    using a r by (auto simp: trim_examples parse_examples)
  have 3: "rooms (snd (bulk_update_prod (\<lambda>_. None) suite_store
                 [(''Suite'', JStr [char_of (194 :: nat), char_of (160 :: nat), CHR ''5''])]))
      ''Suite'' = Some (Some 5)"
    using c r by (auto simp: trim_examples parse_examples max_safe_def)
  have 4: "nonneg_ledger (snd (bulk_update_prod (\<lambda>_. None) suite_store [(''Suite'', JNum (Fin 5))]))"
    using a p nonneg_suite_store by blast
  have 5: "rooms (snd (bulk_update_alias (\<lambda>_. None) suite_store [(''Suite'', JNum (Fin 5))]))
      ''Suite'' = Some (Some 5)"
    using b r by (simp add: js_parseInt_num max_safe_def)
  from 1 2 3 4 5 show ?thesis by simp
qed

text \<open>
  C4, as the specification states it, fails: on the Suite scenario the bulk update of
  \<open>server.js\<close> accepts the count \<open>-5\<close>, answers with status 200 and stores \<open>-5\<close>.
\<close>

theorem counts_not_clamped_counterexample:
  "nonneg_ledger suite_store \<and>
   status (fst (bulk_update_prod (\<lambda>_. None) suite_store [(''Suite'', JNum (Fin (- 5)))])) = 200 \<and>
   rooms (snd (bulk_update_prod (\<lambda>_. None) suite_store [(''Suite'', JNum (Fin (- 5)))])) ''Suite'' =
     Some (Some (- 5)) \<and>
   \<not> nonneg_ledger (snd (bulk_update_prod (\<lambda>_. None) suite_store [(''Suite'', JNum (Fin (- 5)))]))"
proof -
  let ?st = "snd (bulk_update_prod (\<lambda>_. None) suite_store [(''Suite'', JNum (Fin (- 5)))])"
  have c: "count_prod (JNum (Fin (- 5))) = Fin (- 5)"
    by (simp add: count_prod_def or_num_def js_parseInt_num)
  have s: "status (fst (bulk_update_prod (\<lambda>_. None) suite_store [(''Suite'', JNum (Fin (- 5)))])) = 200"
    by (simp add: bulk_update_prod_def reply_prod_def)
  have r: "rooms ?st ''Suite'' = Some (Some (- 5))"
    by (simp add: bulk_update_prod_single trim_examples c update_available_def suite_store_def)
  have n: "\<not> nonneg_ledger ?st"
  proof
    assume "nonneg_ledger ?st"
    with r have "\<exists>n. Some (- 5 :: int) = Some n \<and> 0 \<le> n"
      unfolding nonneg_ledger_def by blast
    then show False by simp
  qed
  from nonneg_suite_store s r n show ?thesis by simp
qed

section \<open>Outcomes of a bulk update\<close>







section \<open>Room types that are not in the ledger\<close>


lemma parse_int_function: "js_parseInt (JFun name) = NaN"
proof -
  have "skip_ws (CHR ''f'' # cs) = CHR ''f'' # cs" for cs
    by (rule skip_ws_ascii) simp_all
  then show ?thesis
    by (simp add: js_parseInt_def parse_int_def is_digit_def digit_val_def)
qed


text \<open>
  In the file-store variant the name of a member that the ledger object inherits passes
  the guard: the stock read is the method, which parses to NaN, so the stock check passes
  and the booking is recorded, and the assignment puts NaN under that name.
\<close>

lemma inherited_room_type_file:
  assumes "availabilityCache fs (js_to_string (room_type_file b)) = None"
    and "js_to_string (room_type_file b) \<in> set object_prototype_keys"
  shows "submit_file env fs b =
           save_file (booking_file env b) (cache_put fs (js_to_string (room_type_file b)) NaN)"
proof -
  let ?k = "js_to_string (room_type_file b)"
  have p: "js_parseInt (inherited ?k) = NaN"
  proof (cases "?k = ''__proto__''")
    case True
    have "js_parseInt (JObj []) = NaN" by code_simp
    with True show ?thesis by (simp add: inherited_def)
  next
    case False
    with assms(2) show ?thesis by (simp add: inherited_def parse_int_function)
  qed
  have u: "inherited ?k \<noteq> JUndef" using assms(2) by (simp add: inherited_def)
  show ?thesis
    using assms(1) p u by (simp add: submit_file_def Let_def cache_get_def)
qed




end
